theory Spec2Isabelle
  imports Main "HOL-Library.Sublist" "HOL-Library.AList"
begin

section \<open>Go standard library: the string functions the package calls\<close>

text \<open>
  \<^verbatim>\<open>strings.HasPrefix(s, prefix)\<close> is
  \<^verbatim>\<open>len(s) >= len(prefix) && s[0:len(prefix)] == prefix\<close>.
  Go strings are byte sequences, as \<open>string\<close> is here.
\<close>

definition HasPrefix :: "string \<Rightarrow> string \<Rightarrow> bool" where
  "HasPrefix s pre = (length pre \<le> length s \<and> take (length pre) s = pre)"

text \<open>
  \<^verbatim>\<open>strings.Contains(s, substr)\<close>: \<open>substr\<close> occurs in \<open>s\<close> at some offset
  (the empty string occurs everywhere, also in the empty string).
\<close>

fun Contains :: "string \<Rightarrow> string \<Rightarrow> bool" where
  "Contains [] substr = (substr = [])"
| "Contains (c # s) substr =
     (if HasPrefix (c # s) substr then True else Contains s substr)"

text \<open>
  \<^verbatim>\<open>fmt.Sprintf\<close>, for the one verb the package uses: each \<^verbatim>\<open>%s\<close> is replaced by
  the next string operand, and by \<^verbatim>\<open>%!s(MISSING)\<close> when the operands have run out.
  Every other byte of the format is copied. Both call sites pass exactly as many
  operands as their format has verbs, so Go's report of surplus operands is not
  needed.
\<close>

fun Sprintf :: "string \<Rightarrow> string list \<Rightarrow> string" where
  "Sprintf [] operands = []"
| "Sprintf [c] operands = [c]"
| "Sprintf (c # d # format) operands =
     (if c = CHR ''%'' \<and> d = CHR ''s''
      then (case operands of
              [] \<Rightarrow> ''%!s(MISSING)'' @ Sprintf format []
            | a # rest \<Rightarrow> a @ Sprintf format rest)
      else c # Sprintf (d # format) operands)"

section \<open>Errors and panics\<close>

text \<open>
  A Go \<^verbatim>\<open>error\<close> value. \<^verbatim>\<open>iterator.Done\<close> is a sentinel compared by identity, so
  it has a constructor of its own; \<^verbatim>\<open>errors.New(msg)\<close> made by this package is
  \<open>ErrorString\<close>; whatever the client library or the remote service reports is
  \<open>ServiceError\<close>. A \<^verbatim>\<open>nil\<close> error is \<open>None\<close> of \<open>error option\<close>.
\<close>

datatype error =
    IteratorDone
  | ErrorString string
  | ServiceError string

text \<open>A call either returns or panics (the run-time aborts the goroutine).\<close>

datatype 'a outcome = Panic string | Return 'a

section \<open>The query descriptor of the client library\<close>

text \<open>
  \<^verbatim>\<open>bigquery.Dataset\<close> and \<^verbatim>\<open>bigquery.Table\<close> handles: a table handle is a
  dataset handle with a table name.
\<close>

record BqDataset =
  ProjectID :: string
  DatasetID :: string

record Table = BqDataset +
  TableID :: string

text \<open>
  \<^verbatim>\<open>bigquery.TableWriteDisposition\<close> is a string type; its zero value, the empty
  string, leaves the choice to the service.
\<close>

type_synonym TableWriteDisposition = string

definition WriteAppend :: TableWriteDisposition where
  "WriteAppend = ''WRITE_APPEND''"

definition WriteTruncate :: TableWriteDisposition where
  "WriteTruncate = ''WRITE_TRUNCATE''"

definition WriteEmpty :: TableWriteDisposition where
  "WriteEmpty = ''WRITE_EMPTY''"

text \<open>
  The fields of \<^verbatim>\<open>bigquery.QueryConfig\<close> that the package reads or writes.
  \<open>Dst\<close> is a pointer in Go: \<open>None\<close> is \<^verbatim>\<open>nil\<close>.
\<close>

record Query =
  Q :: string
  Dst :: "Table option"
  DryRun :: bool
  UseLegacySQL :: bool
  DefaultProjectID :: string
  DefaultDatasetID :: string
  AllowLargeResults :: bool
  DisableFlattenedResults :: bool
  WriteDisposition :: TableWriteDisposition

text \<open>
  \<^verbatim>\<open>Client.Query(q)\<close> of the library: a query whose configuration holds the text
  and the zero value in every other field.
\<close>

definition Client_Query :: "string \<Rightarrow> Query" where
  "Client_Query q =
     \<lparr>Q = q, Dst = None, DryRun = False, UseLegacySQL = False,
      DefaultProjectID = [], DefaultDatasetID = [],
      AllowLargeResults = False, DisableFlattenedResults = False,
      WriteDisposition = []\<rparr>"

text \<open>\<^verbatim>\<open>Client.DatasetInProject(project, dataset)\<close> and \<^verbatim>\<open>Dataset.Table(table)\<close>.\<close>

definition DatasetInProject :: "string \<Rightarrow> string \<Rightarrow> BqDataset" where
  "DatasetInProject project dataset = \<lparr>ProjectID = project, DatasetID = dataset\<rparr>"

definition Dataset_Table :: "BqDataset \<Rightarrow> string \<Rightarrow> Table" where
  "Dataset_Table d table = BqDataset.extend d \<lparr>TableID = table\<rparr>"

section \<open>Rows, cursors and the remote service\<close>

text \<open>
  The client library and the query service behind it are not part of the
  repository. They are modelled at the interface the package uses, after the
  library's documentation: a query is read into a forward-only row cursor, or run
  as a job that is then waited for.

  \<^verbatim>\<open>bigquery.Value\<close> is a dynamically typed column value; \<^verbatim>\<open>time.Time\<close> is a point
  in time, here an integer offset whose zero stands for Go's zero \<^verbatim>\<open>Time\<close>.
\<close>

type_synonym Time = int

datatype Value =
    Null
  | BoolValue bool
  | IntValue int
  | StringValue string
  | TimestampValue Time

text \<open>A row: the columns of the result schema, in order, with their values.\<close>

type_synonym Row = "(string \<times> Value) list"

text \<open>
  A row cursor (\<^verbatim>\<open>bigquery.RowIterator\<close>) is the sequence of what its coming reads
  will meet: a row fetched from the service, or a hard error. When nothing is left
  a read reports \<^verbatim>\<open>iterator.Done\<close>.
\<close>

datatype fetched = Fetched Row | Failed error

type_synonym RowIterator = "fetched list"

datatype Job = Job string

fun ID :: "Job \<Rightarrow> string" where
  "ID (Job name) = name"

datatype State = Pending | Running | Done

record JobStatus =
  State :: State
  Err :: "error option"

text \<open>
  A job, as the service will answer about it: the replies to the requests for
  its status that are made while it runs, each a failed request or a status, and
  the error of the job itself once it is over (\<open>None\<close> when it has succeeded).
\<close>

record JobRun =
  replies :: "(error + JobStatus) list"
  job_error :: "error option"

text \<open>
  The service as the package meets it through \<^verbatim>\<open>bigquery.Client\<close>:
  \<open>read_rows\<close> is \<^verbatim>\<open>Query.Read\<close>, \<open>run_job\<close> is \<^verbatim>\<open>Query.Run\<close>, and \<open>job_run\<close>
  is what the service will answer about a job it has accepted.
\<close>

record Client =
  read_rows :: "Query \<Rightarrow> error + RowIterator"
  run_job :: "Query \<Rightarrow> error + Job"
  job_run :: "Job \<Rightarrow> JobRun"

text \<open>
  \<^verbatim>\<open>Job.Wait\<close> of the library asks for the job until it is over. A request that
  fails ends the wait with that error and a \<^verbatim>\<open>nil\<close> status. A status in the state
  \<^verbatim>\<open>Done\<close> ends it with that status and a \<^verbatim>\<open>nil\<close> error, whether the job has
  succeeded or failed: the error of a failed job is inside the status
  (\<^verbatim>\<open>JobStatus.Err\<close>). Any other status lets the wait go on.
\<close>

fun Wait_loop :: "(error + JobStatus) list \<Rightarrow> error option \<Rightarrow> JobStatus option \<times> error option" where
  "Wait_loop [] final = (Some \<lparr>State = Done, Err = final\<rparr>, None)"
| "Wait_loop (Inl e # rs) final = (None, Some e)"
| "Wait_loop (Inr js # rs) final =
     (if State js = Done then (Some js, None) else Wait_loop rs final)"

definition Job_Wait :: "Client \<Rightarrow> Job \<Rightarrow> JobStatus option \<times> error option" where
  "Job_Wait c job = Wait_loop (replies (job_run c job)) (job_error (job_run c job))"

text \<open>
  What a call asked of the service, in order. \<open>NextEv k\<close> is a read of the
  cursor into a destination pointing to a value of kind \<open>k\<close>.
\<close>

datatype Kind = Invalid | Bool | IntK | String | Map | Struct | Ptr

datatype event =
    ReadEv Query
  | NextEv Kind
  | RunEv Query
  | WaitEv Job

section \<open>Go values and reflection\<close>

text \<open>
  The values a caller can pass where the package takes \<^verbatim>\<open>interface{}\<close>: the
  \<^verbatim>\<open>nil\<close> interface, or a dynamic value. A pointer carries what it points to
  (\<open>None\<close> is the \<^verbatim>\<open>nil\<close> pointer), so a call that writes through a pointer
  returns the pointer with its new referent. \<open>'t\<close> is the caller's struct type.
\<close>

datatype 't go_value =
    GoBool bool
  | GoInt int
  | GoString string
  | GoMap "(string \<times> Value) list"
  | GoStruct 't
  | GoPtr "'t go_value option"

datatype 't interface = NilInterface | Dyn "'t go_value"

text \<open>
  \<^verbatim>\<open>reflect.Value\<close>: the zero \<^verbatim>\<open>Value\<close>, or the view of a dynamic value.
  \<^verbatim>\<open>reflect.ValueOf(nil)\<close> is the zero \<^verbatim>\<open>Value\<close>; \<^verbatim>\<open>Value.Type\<close> panics on
  it, while \<^verbatim>\<open>Value.Kind\<close> answers \<^verbatim>\<open>Invalid\<close>. \<^verbatim>\<open>reflect.Indirect\<close> follows a
  pointer, gives the zero \<^verbatim>\<open>Value\<close> for a \<^verbatim>\<open>nil\<close> pointer and leaves every other
  value as it is.
\<close>

datatype 't reflect_Value = ZeroValue | Val "'t go_value"

fun kind_of :: "'t go_value \<Rightarrow> Kind" where
  "kind_of (GoBool b) = Bool"
| "kind_of (GoInt i) = IntK"
| "kind_of (GoString s) = String"
| "kind_of (GoMap m) = Map"
| "kind_of (GoStruct t) = Struct"
| "kind_of (GoPtr p) = Ptr"

fun ValueOf :: "'t interface \<Rightarrow> 't reflect_Value" where
  "ValueOf NilInterface = ZeroValue"
| "ValueOf (Dyn v) = Val v"

fun Type_Kind :: "'t reflect_Value \<Rightarrow> Kind outcome" where
  "Type_Kind ZeroValue = Panic ''reflect: call of reflect.Value.Type on zero Value''"
| "Type_Kind (Val v) = Return (kind_of v)"

fun Indirect :: "'t reflect_Value \<Rightarrow> 't reflect_Value" where
  "Indirect (Val (GoPtr None)) = ZeroValue"
| "Indirect (Val (GoPtr (Some v))) = Val v"
| "Indirect v = v"

fun Value_Kind :: "'t reflect_Value \<Rightarrow> Kind" where
  "Value_Kind ZeroValue = Invalid"
| "Value_Kind (Val v) = kind_of v"

section \<open>Reading a cursor\<close>

text \<open>
  \<^verbatim>\<open>RowIterator.Next(dst)\<close> of the library. It first looks at \<open>dst\<close>: anything
  but a pointer to a map or to a struct is refused before the cursor is touched.
  Then it fetches: \<^verbatim>\<open>iterator.Done\<close> at the end, the error of a failed fetch, or a
  row, which is consumed and loaded into what \<open>dst\<close> points to. Loading into a map
  stores every column and cannot fail. Loading into a struct is the work of the
  library's struct loader for the caller's type, the parameter \<open>load\<close>: it
  returns an error or \<^verbatim>\<open>nil\<close>, and the struct as it has left it.
\<close>

type_synonym 't loader = "Row \<Rightarrow> 't \<Rightarrow> error option \<times> 't"

definition load_map :: "Row \<Rightarrow> (string \<times> Value) list \<Rightarrow> (string \<times> Value) list" where
  "load_map row m = fold (\<lambda>(name, v). AList.update name v) row m"

fun fetch :: "RowIterator \<Rightarrow> (error + Row) \<times> RowIterator" where
  "fetch [] = (Inl IteratorDone, [])"
| "fetch (Failed e # it) = (Inl e, it)"
| "fetch (Fetched row # it) = (Inr row, it)"

definition Next :: "'t loader \<Rightarrow> RowIterator \<Rightarrow> 't interface \<Rightarrow> error option \<times> 't interface \<times> RowIterator" where
  "Next load it dst =
     (case dst of
        Dyn (GoPtr (Some (GoMap m))) \<Rightarrow>
          (case fetch it of
             (Inl e, it') \<Rightarrow> (Some e, dst, it')
           | (Inr row, it') \<Rightarrow> (None, Dyn (GoPtr (Some (GoMap (load_map row m)))), it'))
      | Dyn (GoPtr (Some (GoStruct t))) \<Rightarrow>
          (case fetch it of
             (Inl e, it') \<Rightarrow> (Some e, dst, it')
           | (Inr row, it') \<Rightarrow>
               (case load row t of (err, t') \<Rightarrow> (err, Dyn (GoPtr (Some (GoStruct t'))), it')))
      | _ \<Rightarrow>
          (Some (ErrorString ''bigquery: cannot convert to ValueLoader (need pointer to []Value, map[string]Value, or struct)''),
           dst, it))"

section \<open>Package bqext\<close>

text \<open>
  \<^verbatim>\<open>type Dataset struct { BqClient *bigquery.Client; Dataset *bigquery.Dataset }\<close>.
  Both pointers are set by \<^verbatim>\<open>NewDataset\<close> and taken to be non-nil.
\<close>

record Dataset =
  BqClient :: Client
  Dataset :: BqDataset

definition ResultQuery :: "Dataset \<Rightarrow> string \<Rightarrow> bool \<Rightarrow> Query" where
  "ResultQuery dsExt query dryRun =
     (let q = Client_Query query;
          q = q\<lparr>DryRun := dryRun\<rparr>;
          q = (if HasPrefix query ''#legacySQL'' then q\<lparr>UseLegacySQL := True\<rparr> else q);
          q = q\<lparr>DefaultProjectID := ProjectID (Dataset dsExt)\<rparr>;
          q = q\<lparr>DefaultDatasetID := DatasetID (Dataset dsExt)\<rparr>
      in q)"

definition DestinationQuery :: "Dataset \<Rightarrow> string \<Rightarrow> Table option \<Rightarrow> Query" where
  "DestinationQuery dsExt query dest =
     (let q = Client_Query query;
          q = (case dest of
                 Some d \<Rightarrow> q\<lparr>Dst := Some d\<rparr>
               | None \<Rightarrow> q\<lparr>DryRun := True\<rparr>);
          q = q\<lparr>AllowLargeResults := True\<rparr>;
          q = q\<lparr>DefaultProjectID := ProjectID (Dataset dsExt)\<rparr>;
          q = q\<lparr>DefaultDatasetID := DatasetID (Dataset dsExt)\<rparr>;
          q = q\<lparr>DisableFlattenedResults := True\<rparr>
      in q)"

text \<open>
  \<^verbatim>\<open>QueryAndParse\<close> returns its error, together with the caller's argument as
  the call has left it and the requests it made of the service. The log lines the
  package prints are left out: they change neither.
\<close>

definition QueryAndParse ::
  "'t loader \<Rightarrow> Dataset \<Rightarrow> string \<Rightarrow> 't interface \<Rightarrow> (error option \<times> 't interface \<times> event list) outcome" where
  "QueryAndParse load dsExt q structPtr =
     (let typeInfo = ValueOf structPtr in
      (case Type_Kind typeInfo of
         Panic msg \<Rightarrow> Panic msg
       | Return k \<Rightarrow>
          if k \<noteq> Ptr then
            Return (Some (ErrorString ''Argument should be ptr to struct''), structPtr, [])
          else if Value_Kind (Indirect typeInfo) \<noteq> Struct then
            Return (Some (ErrorString ''Argument should be ptr to struct''), structPtr, [])
          else
            (let query = ResultQuery dsExt q False in
             (case read_rows (BqClient dsExt) query of
                Inl err \<Rightarrow> Return (Some err, structPtr, [ReadEv query])
              | Inr it \<Rightarrow>
                  (case Next load it structPtr of
                     (err, structPtr', it') \<Rightarrow>
                       (case err of
                          Some e \<Rightarrow> Return (Some e, structPtr', [ReadEv query, NextEv Struct])
                        | None \<Rightarrow>
                            (let row = Dyn (GoPtr (Some (GoMap []))) in
                             (case Next load it' row of
                                (err2, row', it'') \<Rightarrow>
                                  if err2 \<noteq> Some IteratorDone then
                                    Return (Some (ErrorString ''multiple row data''), structPtr',
                                            [ReadEv query, NextEv Struct, NextEv Map])
                                  else
                                    Return (None, structPtr',
                                            [ReadEv query, NextEv Struct, NextEv Map])))))))))"

section \<open>Partition metadata\<close>

record PartitionInfo =
  PartitionID :: string
  CreationTime :: Time
  LastModified :: Time

text \<open>The zero value \<^verbatim>\<open>PartitionInfo{}\<close>.\<close>

definition PartitionInfo_zero :: PartitionInfo where
  "PartitionInfo_zero = \<lparr>PartitionID = [], CreationTime = 0, LastModified = 0\<rparr>"

text \<open>
  The library's struct loader, at the type \<^verbatim>\<open>PartitionInfo\<close>. A column is bound
  to the field of the same name, ignoring case; a column with no such field is
  skipped. Before anything is written, every bound column is checked against the
  type of its field, and the first column that does not fit fails the load. Then
  the fields are set in the order of the columns; a NULL cannot be stored in these
  fields and stops the load there, with the fields set so far left as they are.
  The type of a column is read off its value; a NULL fits every field at the check.

  Names are compared as the library does for a field name of ASCII letters: the
  case of ASCII letters is ignored, and the long s (U+017F, the bytes C5 BF) and
  the Kelvin sign (U+212A, the bytes E2 84 AA) count as \<^verbatim>\<open>s\<close> and \<^verbatim>\<open>k\<close>.
\<close>

definition to_lower :: "char \<Rightarrow> char" where
  "to_lower c =
     (case map_of (zip ''ABCDEFGHIJKLMNOPQRSTUVWXYZ'' ''abcdefghijklmnopqrstuvwxyz'') c of
        Some l \<Rightarrow> l
      | None \<Rightarrow> c)"

fun fold_name :: "string \<Rightarrow> string" where
  "fold_name (c # d # e # s) =
     (if c = CHR 0xC5 \<and> d = CHR 0xBF then CHR ''s'' # fold_name (e # s)
      else if c = CHR 0xE2 \<and> d = CHR 0x84 \<and> e = CHR 0xAA then CHR ''k'' # fold_name s
      else to_lower c # fold_name (d # e # s))"
| "fold_name [c, d] =
     (if c = CHR 0xC5 \<and> d = CHR 0xBF then ''s'' else [to_lower c, to_lower d])"
| "fold_name [c] = [to_lower c]"
| "fold_name [] = []"

definition EqualFold :: "string \<Rightarrow> string \<Rightarrow> bool" where
  "EqualFold s t = (fold_name s = fold_name t)"

datatype field = PartitionID_field | CreationTime_field | LastModified_field

text \<open>The name of a field, and the name of its Go type, short and in full.\<close>

fun field_name :: "field \<Rightarrow> string" where
  "field_name PartitionID_field = ''PartitionID''"
| "field_name CreationTime_field = ''CreationTime''"
| "field_name LastModified_field = ''LastModified''"

fun type_name :: "field \<Rightarrow> string" where
  "type_name PartitionID_field = ''string''"
| "type_name CreationTime_field = ''Time''"
| "type_name LastModified_field = ''Time''"

fun type_string :: "field \<Rightarrow> string" where
  "type_string PartitionID_field = ''string''"
| "type_string CreationTime_field = ''time.Time''"
| "type_string LastModified_field = ''time.Time''"

fun schema_type :: "Value \<Rightarrow> string" where
  "schema_type Null = []"
| "schema_type (BoolValue b) = ''BOOLEAN''"
| "schema_type (IntValue i) = ''INTEGER''"
| "schema_type (StringValue s) = ''STRING''"
| "schema_type (TimestampValue t) = ''TIMESTAMP''"

definition field_by_name :: "string \<Rightarrow> field option" where
  "field_by_name name =
     (if EqualFold name ''PartitionID'' then Some PartitionID_field
      else if EqualFold name ''CreationTime'' then Some CreationTime_field
      else if EqualFold name ''LastModified'' then Some LastModified_field
      else None)"

fun assignable :: "field \<Rightarrow> Value \<Rightarrow> bool" where
  "assignable f Null = True"
| "assignable PartitionID_field (StringValue s) = True"
| "assignable CreationTime_field (TimestampValue t) = True"
| "assignable LastModified_field (TimestampValue t) = True"
| "assignable f v = False"

fun check_columns :: "Row \<Rightarrow> error option" where
  "check_columns [] = None"
| "check_columns ((name, v) # row) =
     (case field_by_name name of
        None \<Rightarrow> check_columns row
      | Some f \<Rightarrow>
          (if assignable f v then check_columns row
           else Some (ErrorString
                  (''bigquery: schema field '' @ name @ '' of type '' @ schema_type v @
                   '' is not assignable to struct field '' @ field_name f @
                   '' of type '' @ type_string f))))"

fun set_field :: "field \<Rightarrow> Value \<Rightarrow> PartitionInfo \<Rightarrow> error option \<times> PartitionInfo" where
  "set_field PartitionID_field (StringValue s) p = (None, p\<lparr>PartitionID := s\<rparr>)"
| "set_field CreationTime_field (TimestampValue t) p = (None, p\<lparr>CreationTime := t\<rparr>)"
| "set_field LastModified_field (TimestampValue t) p = (None, p\<lparr>LastModified := t\<rparr>)"
| "set_field f v p =
     (Some (ErrorString
        (''bigquery: NULL cannot be assigned to field `'' @ field_name f @
         ''` of type '' @ type_name f)), p)"

fun set_fields :: "Row \<Rightarrow> PartitionInfo \<Rightarrow> error option \<times> PartitionInfo" where
  "set_fields [] p = (None, p)"
| "set_fields ((name, v) # row) p =
     (case field_by_name name of
        None \<Rightarrow> set_fields row p
      | Some f \<Rightarrow>
          (case set_field f v p of
             (Some e, p') \<Rightarrow> (Some e, p')
           | (None, p') \<Rightarrow> set_fields row p'))"

definition load_PartitionInfo :: "PartitionInfo loader" where
  "load_PartitionInfo row p =
     (case check_columns row of
        Some e \<Rightarrow> (Some e, p)
      | None \<Rightarrow> set_fields row p)"

text \<open>
  The format of the query of \<^verbatim>\<open>GetPartitionInfo\<close>: a raw string literal, with the
  line breaks and tabs of the source file.
\<close>

definition partitionTemplate :: string where
  "partitionTemplate =
     ''#legacySQL'' @ [CHR 0x0A, CHR 0x09, CHR 0x09] @
     ''SELECT'' @ [CHR 0x0A, CHR 0x09, CHR 0x09] @
     ''  partition_id as PartitionID,'' @ [CHR 0x0A, CHR 0x09, CHR 0x09] @
     ''  msec_to_timestamp(creation_time) AS CreationTime,'' @ [CHR 0x0A, CHR 0x09, CHR 0x09] @
     ''  msec_to_timestamp(last_modified_time) AS LastModified'' @ [CHR 0x0A, CHR 0x09, CHR 0x09] @
     ''FROM'' @ [CHR 0x0A, CHR 0x09, CHR 0x09] @
     ''  [%s$__PARTITIONS_SUMMARY__]'' @ [CHR 0x0A, CHR 0x09, CHR 0x09] @
     ''where partition_id = '' @ [CHR 0x22] @ ''%s'' @ [CHR 0x22] @ '' ''"

text \<open>What a pointer to a struct points to.\<close>

fun pointee :: "'t interface \<Rightarrow> 't option" where
  "pointee (Dyn (GoPtr (Some (GoStruct t)))) = Some t"
| "pointee v = None"

text \<open>
  \<^verbatim>\<open>GetPartitionInfo\<close> passes the address of its local \<open>pi\<close>, here \<open>pinfo\<close>, and
  reads it back after the call. The last branch is for a call that would hand
  back something else than that pointer, which \<open>QueryAndParse\<close> never does.
\<close>

definition GetPartitionInfo ::
  "Dataset \<Rightarrow> string \<Rightarrow> string \<Rightarrow> (PartitionInfo \<times> error option \<times> event list) outcome" where
  "GetPartitionInfo dsExt table partition' =
     (let queryString = Sprintf partitionTemplate [table, partition'];
          pinfo = PartitionInfo_zero
      in (case QueryAndParse load_PartitionInfo dsExt queryString
                 (Dyn (GoPtr (Some (GoStruct pinfo)))) of
            Panic msg \<Rightarrow> Panic msg
          | Return (err, ptr, evs) \<Rightarrow>
              (case err of
                 Some e \<Rightarrow> Return (PartitionInfo_zero, Some e, evs)
               | None \<Rightarrow>
                   (case pointee ptr of
                      Some pinfo' \<Rightarrow> Return (pinfo', None, evs)
                    | None \<Rightarrow> Panic ''invalid memory address or nil pointer dereference''))))"

section \<open>Deduplication\<close>

definition dedupTemplate :: string where
  "dedupTemplate =
     [CHR 0x0A, CHR 0x09] @
     ''#standardSQL'' @ [CHR 0x0A, CHR 0x09] @
     ''# Delete all duplicate rows based on test_id'' @ [CHR 0x0A, CHR 0x09] @
     ''SELECT * except (row_number)'' @ [CHR 0x0A, CHR 0x09] @
     ''FROM ('' @ [CHR 0x0A, CHR 0x09] @
     ''  SELECT *, ROW_NUMBER() OVER (PARTITION BY %s) row_number'' @ [CHR 0x0A, CHR 0x09] @
     ''  FROM '' @ [CHR 0x60] @ ''%s'' @ [CHR 0x60] @ '')'' @ [CHR 0x0A, CHR 0x09] @
     ''WHERE row_number = 1''"

text \<open>
  \<^verbatim>\<open>Dedup\<close> returns the status pointer and the error of the Go function, and the
  requests it made of the service.
\<close>

definition Dedup ::
  "Dataset \<Rightarrow> string \<Rightarrow> string \<Rightarrow> bool \<Rightarrow> string \<Rightarrow> string \<Rightarrow> string
     \<Rightarrow> JobStatus option \<times> error option \<times> event list" where
  "Dedup dsExt src dedupOn overwrite project dataset table =
     (if \<not> Contains table ''$'' then
        (None, Some (ErrorString ''Destination table does not specify partition''), [])
      else
        (let queryString = Sprintf dedupTemplate [dedupOn, src];
             dest = DatasetInProject project dataset;
             q = DestinationQuery dsExt queryString (Some (Dataset_Table dest table));
             q = (if overwrite then q\<lparr>WriteDisposition := WriteTruncate\<rparr> else q)
         in (case run_job (BqClient dsExt) q of
               Inl err \<Rightarrow> (None, Some err, [RunEv q])
             | Inr job \<Rightarrow>
                 (case Job_Wait (BqClient dsExt) job of
                    (status, err) \<Rightarrow>
                      (case err of
                         Some e \<Rightarrow> (status, Some e, [RunEv q, WaitEv job])
                       | None \<Rightarrow> (status, None, [RunEv q, WaitEv job]))))))"

section \<open>The partition summary of a table\<close>

text \<open>
  Modelled from the spec: the query service on the query of \<^verbatim>\<open>GetPartitionInfo\<close>,
  which is not code of the repository. The spec has a legacy-dialect query read
  the partition-summary pseudo-table of a table and filter by the partition ID.

  A table has its partitions, each known by its ID, with a creation time and a
  time of last modification.
\<close>

type_synonym Partitions = "string \<rightharpoonup> Time \<times> Time"

text \<open>
  The rows of the summary whose \<^verbatim>\<open>partition_id\<close> is the one compared with, under
  the column names the query gives them.
\<close>

definition summary_rows :: "Partitions \<Rightarrow> string \<Rightarrow> RowIterator" where
  "summary_rows parts pid =
     (case parts pid of
        None \<Rightarrow> []
      | Some (created, modified) \<Rightarrow>
          [Fetched [(''PartitionID'', StringValue pid),
                    (''CreationTime'', TimestampValue created),
                    (''LastModified'', TimestampValue modified)]])"

text \<open>
  Reading a query text: a fixed text is taken off the front or the end, and a
  text is cut at the first occurrence of a closing character.
\<close>

fun strip_prefix :: "string \<Rightarrow> string \<Rightarrow> string option" where
  "strip_prefix [] s = Some s"
| "strip_prefix (p # ps) [] = None"
| "strip_prefix (p # ps) (c # s) = (if p = c then strip_prefix ps s else None)"

definition strip_suffix :: "string \<Rightarrow> string \<Rightarrow> string option" where
  "strip_suffix suf s = map_option rev (strip_prefix (rev suf) (rev s))"

fun split_on :: "char \<Rightarrow> string \<Rightarrow> (string \<times> string) option" where
  "split_on d [] = None"
| "split_on d (c # s) =
     (if c = d then Some ([], s)
      else (case split_on d s of
              None \<Rightarrow> None
            | Some (before, after) \<Rightarrow> Some (c # before, after)))"

text \<open>
  The query the service understands: the three summary columns under the names
  \<^verbatim>\<open>PartitionID\<close>, \<^verbatim>\<open>CreationTime\<close> and \<^verbatim>\<open>LastModified\<close>, from the summary of the
  table named between the square brackets, where \<^verbatim>\<open>partition_id\<close> equals a string
  literal between double quotes. A table reference ends at the first \<^verbatim>\<open>]\<close> and a
  string literal at the first \<^verbatim>\<open>"\<close>; escapes with a backslash are not modelled and
  a literal with one is refused. The answer of the reading is the table and the
  literal.
\<close>

definition summary_select :: string where
  "summary_select =
     ''#legacySQL'' @ [CHR 0x0A, CHR 0x09, CHR 0x09] @
     ''SELECT'' @ [CHR 0x0A, CHR 0x09, CHR 0x09] @
     ''  partition_id as PartitionID,'' @ [CHR 0x0A, CHR 0x09, CHR 0x09] @
     ''  msec_to_timestamp(creation_time) AS CreationTime,'' @ [CHR 0x0A, CHR 0x09, CHR 0x09] @
     ''  msec_to_timestamp(last_modified_time) AS LastModified'' @ [CHR 0x0A, CHR 0x09, CHR 0x09] @
     ''FROM'' @ [CHR 0x0A, CHR 0x09, CHR 0x09] @
     ''  [''"

definition summary_where :: string where
  "summary_where = [CHR 0x0A, CHR 0x09, CHR 0x09] @ ''where partition_id = '' @ [CHR 0x22]"

definition parse_summary_query :: "string \<Rightarrow> (string \<times> string) option" where
  "parse_summary_query text =
     (case strip_prefix summary_select text of
        None \<Rightarrow> None
      | Some r1 \<Rightarrow>
          (case split_on (CHR '']'') r1 of
             None \<Rightarrow> None
           | Some (ref, r2) \<Rightarrow>
               (case strip_suffix ''$__PARTITIONS_SUMMARY__'' ref of
                  None \<Rightarrow> None
                | Some table \<Rightarrow>
                    (case strip_prefix summary_where r2 of
                       None \<Rightarrow> None
                     | Some r3 \<Rightarrow>
                         (case split_on (CHR 0x22) r3 of
                            None \<Rightarrow> None
                          | Some (literal, r4) \<Rightarrow>
                              (if r4 = '' '' \<and> \<not> (CHR 0x5C \<in> set literal)
                               then Some (table, literal) else None))))))"

text \<open>
  The service over the tables of a project: the summary exists in the legacy
  dialect only, a text it cannot read is an error, and a query it reads is
  answered with the rows of the summary of that table for that literal.
\<close>

definition summary_service :: "(string \<Rightarrow> Partitions) \<Rightarrow> Query \<Rightarrow> error + RowIterator" where
  "summary_service tables q =
     (if \<not> UseLegacySQL q then
        Inl (ServiceError ''invalidQuery: the partition summary needs legacy SQL'')
      else
        (case parse_summary_query (Q q) of
           None \<Rightarrow> Inl (ServiceError ''invalidQuery: syntax error'')
         | Some (table, literal) \<Rightarrow> Inr (summary_rows (tables table) literal)))"

section \<open>A test double of the service\<close>

text \<open>
  A client that answers every read and every submission with fixed values and
  knows one way for a job to go, and a dataset handle on a client, for the
  examples below.
\<close>

definition fake_Client :: "(error + RowIterator) \<Rightarrow> (error + Job) \<Rightarrow> JobRun \<Rightarrow> Client" where
  "fake_Client rows job run =
     \<lparr>read_rows = (\<lambda>q. rows), run_job = (\<lambda>q. job), job_run = (\<lambda>j. run)\<rparr>"

definition fake_Dataset :: "Client \<Rightarrow> Dataset" where
  "fake_Dataset c = \<lparr>BqClient = c, Dataset = \<lparr>ProjectID = ''mlab-testing'', DatasetID = ''go''\<rparr>\<rparr>"

text \<open>
  A project with one table of two partitions, and a client that reads from the
  summary service over it.
\<close>

definition fake_tables :: "string \<Rightarrow> Partitions" where
  "fake_tables table =
     (if table = ''mytable''
      then [''20230101'' \<mapsto> (1500, 1600), ''20230102'' \<mapsto> (1700, 1800)]
      else Map.empty)"

definition summary_Client :: "(string \<Rightarrow> Partitions) \<Rightarrow> Client" where
  "summary_Client tables =
     \<lparr>read_rows = summary_service tables,
      run_job = (\<lambda>q. Inl (ServiceError ''accessDenied'')),
      job_run = (\<lambda>j. \<lparr>replies = [], job_error = None\<rparr>)\<rparr>"

section \<open>Facts about the library functions\<close>

lemma HasPrefix_iff_prefix: "HasPrefix s pre = prefix pre s"
proof
  assume "HasPrefix s pre"
  then have "take (length pre) s = pre" by (simp add: HasPrefix_def)
  then show "prefix pre s" by (metis take_is_prefix)
next
  assume "prefix pre s"
  then obtain zs where "s = pre @ zs" by (auto simp: prefix_def)
  then show "HasPrefix s pre" by (simp add: HasPrefix_def)
qed

lemma Contains_char: "Contains s [c] = (c \<in> set s)"
  by (induction s) (auto simp: HasPrefix_def)

lemma Sprintf_dedupTemplate:
  "Sprintf dedupTemplate [dedupOn, src] =
     [CHR 0x0A, CHR 0x09] @
     ''#standardSQL'' @ [CHR 0x0A, CHR 0x09] @
     ''# Delete all duplicate rows based on test_id'' @ [CHR 0x0A, CHR 0x09] @
     ''SELECT * except (row_number)'' @ [CHR 0x0A, CHR 0x09] @
     ''FROM ('' @ [CHR 0x0A, CHR 0x09] @
     ''  SELECT *, ROW_NUMBER() OVER (PARTITION BY '' @ dedupOn @ '') row_number'' @ [CHR 0x0A, CHR 0x09] @
     ''  FROM '' @ [CHR 0x60] @ src @ [CHR 0x60] @ '')'' @ [CHR 0x0A, CHR 0x09] @
     ''WHERE row_number = 1''"
  by (simp add: dedupTemplate_def)

lemma Sprintf_partitionTemplate:
  "Sprintf partitionTemplate [table, partition'] =
     ''#legacySQL'' @ [CHR 0x0A, CHR 0x09, CHR 0x09] @
     ''SELECT'' @ [CHR 0x0A, CHR 0x09, CHR 0x09] @
     ''  partition_id as PartitionID,'' @ [CHR 0x0A, CHR 0x09, CHR 0x09] @
     ''  msec_to_timestamp(creation_time) AS CreationTime,'' @ [CHR 0x0A, CHR 0x09, CHR 0x09] @
     ''  msec_to_timestamp(last_modified_time) AS LastModified'' @ [CHR 0x0A, CHR 0x09, CHR 0x09] @
     ''FROM'' @ [CHR 0x0A, CHR 0x09, CHR 0x09] @
     ''  ['' @ table @ ''$__PARTITIONS_SUMMARY__]'' @ [CHR 0x0A, CHR 0x09, CHR 0x09] @
     ''where partition_id = '' @ [CHR 0x22] @ partition' @ [CHR 0x22] @ '' ''"
  by (simp add: partitionTemplate_def)

lemma Next_struct:
  "Next load it (Dyn (GoPtr (Some (GoStruct t)))) =
     (case fetch it of
        (Inl e, it') \<Rightarrow> (Some e, Dyn (GoPtr (Some (GoStruct t))), it')
      | (Inr row, it') \<Rightarrow>
          (case load row t of (err, t') \<Rightarrow> (err, Dyn (GoPtr (Some (GoStruct t'))), it')))"
  by (simp add: Next_def)

lemma Next_map:
  "Next load it (Dyn (GoPtr (Some (GoMap m)))) =
     (case fetch it of
        (Inl e, it') \<Rightarrow> (Some e, Dyn (GoPtr (Some (GoMap m))), it')
      | (Inr row, it') \<Rightarrow> (None, Dyn (GoPtr (Some (GoMap (load_map row m)))), it'))"
  by (simp add: Next_def)

lemma fake_read:
  "read_rows (BqClient (fake_Dataset (fake_Client rows job run))) q = rows"
  by (simp add: fake_Dataset_def fake_Client_def)



lemma summary_read:
  "read_rows (BqClient (fake_Dataset (summary_Client tables))) = summary_service tables"
  by (simp add: fake_Dataset_def summary_Client_def)

section \<open>The query builder\<close>

text \<open>
  C5. For every query text, \<^verbatim>\<open>ResultQuery\<close> sets \<open>UseLegacySQL\<close> exactly when the
  text begins with the literal marker \<^verbatim>\<open>#legacySQL\<close>: the flag is true for a text
  with that prefix and false for every other text, whatever the dry-run flag and
  the dataset are.
\<close>

theorem ResultQuery_legacy_dialect:
  "UseLegacySQL (ResultQuery dsExt query dryRun) = prefix ''#legacySQL'' query"
  by (simp add: ResultQuery_def Client_Query_def HasPrefix_iff_prefix Let_def)

text \<open>Both branches on literal texts; a marker that is not at the start does not count.\<close>

lemma ResultQuery_legacy_examples:
  "UseLegacySQL (ResultQuery dsExt ''#legacySQL SELECT 1'' False)
   \<and> \<not> UseLegacySQL (ResultQuery dsExt ''#standardSQL SELECT 1'' False)
   \<and> \<not> UseLegacySQL (ResultQuery dsExt '' #legacySQL SELECT 1'' True)"
  by (simp add: ResultQuery_def Client_Query_def HasPrefix_def Let_def)

text \<open>
  C6. For every call of \<^verbatim>\<open>DestinationQuery\<close>, the query allows large results and
  has flattening of results disabled; its destination is the table passed, and it
  is a dry run exactly when no table was passed (\<^verbatim>\<open>nil\<close>).
\<close>

theorem DestinationQuery_settings:
  "AllowLargeResults (DestinationQuery dsExt query dest)
   \<and> DisableFlattenedResults (DestinationQuery dsExt query dest)
   \<and> Dst (DestinationQuery dsExt query dest) = dest
   \<and> DryRun (DestinationQuery dsExt query dest) = (dest = None)"
  by (cases dest) (simp_all add: DestinationQuery_def Client_Query_def Let_def)

section \<open>Deduplication\<close>

lemma WriteTruncate_not_default: "WriteTruncate \<noteq> []"
  by (simp add: WriteTruncate_def)

lemma Dedup_unqualified:
  "CHR ''$'' \<notin> set table \<Longrightarrow>
   Dedup dsExt src dedupOn overwrite project dataset table =
     (None, Some (ErrorString ''Destination table does not specify partition''), [])"
  by (simp add: Dedup_def Contains_char)

lemma Dedup_qualified:
  "CHR ''$'' \<in> set table \<Longrightarrow>
   Dedup dsExt src dedupOn overwrite project dataset table =
     (let q = (DestinationQuery dsExt (Sprintf dedupTemplate [dedupOn, src])
                 (Some \<lparr>ProjectID = project, DatasetID = dataset, TableID = table\<rparr>))
              \<lparr>WriteDisposition := (if overwrite then WriteTruncate else [])\<rparr>
      in (case run_job (BqClient dsExt) q of
            Inl err \<Rightarrow> (None, Some err, [RunEv q])
          | Inr job \<Rightarrow>
              (fst (Job_Wait (BqClient dsExt) job), snd (Job_Wait (BqClient dsExt) job),
               [RunEv q, WaitEv job])))"
  by (cases overwrite)
     (auto simp: Dedup_def Contains_char Let_def DatasetInProject_def Dataset_Table_def
                 BqDataset.extend_def DestinationQuery_def Client_Query_def
           split: sum.splits prod.splits option.splits)

text \<open>
  C2. For every call of \<^verbatim>\<open>Dedup\<close>: when the destination table name has no
  \<^verbatim>\<open>$\<close>, the call fails with the error "Destination table does not specify
  partition" and asks nothing of the service, neither a job nor a query; when the
  name has a \<^verbatim>\<open>$\<close>, the call goes on to build the deduplication query for that
  destination and submits it.
\<close>

theorem Dedup_partition_qualifier:
  "(CHR ''$'' \<notin> set table \<longrightarrow>
      Dedup dsExt src dedupOn overwrite project dataset table =
        (None, Some (ErrorString ''Destination table does not specify partition''), []))
   \<and> (CHR ''$'' \<in> set table \<longrightarrow>
      (\<exists>q evs. snd (snd (Dedup dsExt src dedupOn overwrite project dataset table)) = RunEv q # evs
         \<and> Q q = Sprintf dedupTemplate [dedupOn, src]
         \<and> Dst q = Some \<lparr>ProjectID = project, DatasetID = dataset, TableID = table\<rparr>))"
proof (intro conjI impI)
  assume "CHR ''$'' \<notin> set table"
  then show "Dedup dsExt src dedupOn overwrite project dataset table =
        (None, Some (ErrorString ''Destination table does not specify partition''), [])"
    by (rule Dedup_unqualified)
next
  assume q: "CHR ''$'' \<in> set table"
  show "\<exists>q evs. snd (snd (Dedup dsExt src dedupOn overwrite project dataset table)) = RunEv q # evs
         \<and> Q q = Sprintf dedupTemplate [dedupOn, src]
         \<and> Dst q = Some \<lparr>ProjectID = project, DatasetID = dataset, TableID = table\<rparr>"
    unfolding Dedup_qualified [OF q] Let_def
    by (cases overwrite)
       (auto simp: DestinationQuery_def Client_Query_def Let_def split: sum.splits)
qed

theorem Dedup_partition_qualifier_witness:
  "CHR ''$'' \<notin> set ''mytable''
   \<and> Dedup (fake_Dataset (fake_Client (Inr []) (Inr (Job ''job_1'')) \<lparr>replies = [], job_error = None\<rparr>))
        ''src'' ''test_id'' True ''mlab-testing'' ''go'' ''mytable'' =
      (None, Some (ErrorString ''Destination table does not specify partition''), [])
   \<and> CHR ''$'' \<in> set ''mytable$20230101''
   \<and> (\<exists>q evs. snd (snd (Dedup (fake_Dataset (fake_Client (Inr []) (Inr (Job ''job_1'')) \<lparr>replies = [], job_error = None\<rparr>))
                  ''src'' ''test_id'' True ''mlab-testing'' ''go'' ''mytable$20230101'')) = RunEv q # evs
         \<and> Q q = Sprintf dedupTemplate [''test_id'', ''src'']
         \<and> Dst q = Some \<lparr>ProjectID = ''mlab-testing'', DatasetID = ''go'', TableID = ''mytable$20230101''\<rparr>)"
proof -
  have a: "CHR ''$'' \<notin> set ''mytable''" by simp
  have b: "CHR ''$'' \<in> set ''mytable$20230101''" by simp
  show ?thesis
    using a b
      Dedup_partition_qualifier [of "''mytable''" _ "''src''" "''test_id''" True "''mlab-testing''" "''go''"]
      Dedup_partition_qualifier [of "''mytable$20230101''" _ "''src''" "''test_id''" True "''mlab-testing''" "''go''"]
    by blast
qed

text \<open>
  C7. For every call of \<^verbatim>\<open>Dedup\<close> whose destination has a partition qualifier,
  the submitted query has the write disposition \<^verbatim>\<open>WriteTruncate\<close> exactly when
  \<open>overwrite\<close> is true; otherwise the disposition is what \<^verbatim>\<open>Client.Query\<close> gave,
  the default of the service. Nothing is checked locally: an error of the
  submission is returned as the service gave it.
\<close>

theorem Dedup_write_disposition:
  assumes "CHR ''$'' \<in> set table"
  shows "\<exists>q evs. snd (snd (Dedup dsExt src dedupOn overwrite project dataset table)) = RunEv q # evs
     \<and> (WriteDisposition q = WriteTruncate) = overwrite
     \<and> WriteDisposition q = (if overwrite then WriteTruncate else WriteDisposition (Client_Query (Q q)))
     \<and> (\<forall>e. run_job (BqClient dsExt) q = Inl e \<longrightarrow>
           Dedup dsExt src dedupOn overwrite project dataset table = (None, Some e, [RunEv q]))"
  unfolding Dedup_qualified [OF assms] Let_def
  by (cases overwrite)
     (auto simp: DestinationQuery_def Client_Query_def Let_def WriteTruncate_def split: sum.splits)

theorem Dedup_write_disposition_witness:
  "CHR ''$'' \<in> set ''out$20230101''
   \<and> (\<exists>q evs. snd (snd (Dedup (fake_Dataset (fake_Client (Inr []) (Inl (ServiceError ''Already Exists'')) \<lparr>replies = [], job_error = None\<rparr>))
                  ''src'' ''id'' False ''mlab-testing'' ''go'' ''out$20230101'')) = RunEv q # evs
         \<and> WriteDisposition q = []
         \<and> Dedup (fake_Dataset (fake_Client (Inr []) (Inl (ServiceError ''Already Exists'')) \<lparr>replies = [], job_error = None\<rparr>))
                  ''src'' ''id'' False ''mlab-testing'' ''go'' ''out$20230101'' =
             (None, Some (ServiceError ''Already Exists''), [RunEv q]))
   \<and> (\<exists>q evs. snd (snd (Dedup (fake_Dataset (fake_Client (Inr []) (Inl (ServiceError ''Already Exists'')) \<lparr>replies = [], job_error = None\<rparr>))
                  ''src'' ''id'' True ''mlab-testing'' ''go'' ''out$20230101'')) = RunEv q # evs
         \<and> WriteDisposition q = ''WRITE_TRUNCATE'')"
proof -
  have a: "CHR ''$'' \<in> set ''out$20230101''" by simp
  have r: "\<And>q. run_job (BqClient (fake_Dataset (fake_Client (Inr []) (Inl (ServiceError ''Already Exists'')) \<lparr>replies = [], job_error = None\<rparr>))) q
             = Inl (ServiceError ''Already Exists'')"
    by (simp add: fake_Dataset_def fake_Client_def)
  show ?thesis
    using a
      Dedup_write_disposition [OF a, of "fake_Dataset (fake_Client (Inr []) (Inl (ServiceError ''Already Exists'')) \<lparr>replies = [], job_error = None\<rparr>)"
         "''src''" "''id''" False "''mlab-testing''" "''go''"]
      Dedup_write_disposition [OF a, of "fake_Dataset (fake_Client (Inr []) (Inl (ServiceError ''Already Exists'')) \<lparr>replies = [], job_error = None\<rparr>)"
         "''src''" "''id''" True "''mlab-testing''" "''go''"]
    by (simp add: r Client_Query_def WriteTruncate_def) blast
qed





section \<open>The single-row executor\<close>

text \<open>What \<^verbatim>\<open>QueryAndParse\<close> does with a pointer to a struct, by the state of the cursor.\<close>

lemma QueryAndParse_struct:
  "QueryAndParse load dsExt q (Dyn (GoPtr (Some (GoStruct t)))) =
     (case read_rows (BqClient dsExt) (ResultQuery dsExt q False) of
        Inl err \<Rightarrow>
          Return (Some err, Dyn (GoPtr (Some (GoStruct t))), [ReadEv (ResultQuery dsExt q False)])
      | Inr it \<Rightarrow>
          (case fetch it of
             (Inl e, it') \<Rightarrow>
               Return (Some e, Dyn (GoPtr (Some (GoStruct t))),
                       [ReadEv (ResultQuery dsExt q False), NextEv Struct])
           | (Inr row, it') \<Rightarrow>
               (case load row t of
                  (Some e, t') \<Rightarrow>
                    Return (Some e, Dyn (GoPtr (Some (GoStruct t'))),
                            [ReadEv (ResultQuery dsExt q False), NextEv Struct])
                | (None, t') \<Rightarrow>
                    Return (if fst (fetch it') = Inl IteratorDone then None
                            else Some (ErrorString ''multiple row data''),
                            Dyn (GoPtr (Some (GoStruct t'))),
                            [ReadEv (ResultQuery dsExt q False), NextEv Struct, NextEv Map]))))"
  unfolding QueryAndParse_def Let_def Next_struct Next_map
  by (auto split: sum.splits prod.splits option.splits)

text \<open>
  C1, as the code has it. For every query run through \<^verbatim>\<open>QueryAndParse\<close> with the
  address of a struct, once the service has given a cursor: with no row, the
  error is \<^verbatim>\<open>iterator.Done\<close> and the struct is as it was; with exactly one row,
  which the loader accepts, the struct is what the loader made of it and no error
  is returned; with two rows or more, the first of which the loader accepts, the
  error is "multiple row data". A cursor of no row or of two rows or more never
  ends without an error. A first row that the loader refuses ends the call with
  the error of the loader, however many rows follow.
\<close>

theorem QueryAndParse_row_count:
  assumes "read_rows (BqClient dsExt) (ResultQuery dsExt q False) = Inr it"
  shows "(it = [] \<longrightarrow>
            (\<exists>evs. QueryAndParse load dsExt q (Dyn (GoPtr (Some (GoStruct t)))) =
               Return (Some IteratorDone, Dyn (GoPtr (Some (GoStruct t))), evs)))
       \<and> (\<forall>row t'. it = [Fetched row] \<and> load row t = (None, t') \<longrightarrow>
            (\<exists>evs. QueryAndParse load dsExt q (Dyn (GoPtr (Some (GoStruct t)))) =
               Return (None, Dyn (GoPtr (Some (GoStruct t'))), evs)))
       \<and> (\<forall>row row2 rest t'. it = Fetched row # Fetched row2 # rest \<and> load row t = (None, t') \<longrightarrow>
            (\<exists>ptr evs. QueryAndParse load dsExt q (Dyn (GoPtr (Some (GoStruct t)))) =
               Return (Some (ErrorString ''multiple row data''), ptr, evs)))
       \<and> (\<forall>rows. it = map Fetched rows \<and> length rows \<noteq> 1 \<longrightarrow>
            (\<exists>e ptr evs. QueryAndParse load dsExt q (Dyn (GoPtr (Some (GoStruct t)))) =
               Return (Some e, ptr, evs)))
       \<and> (\<forall>row rest e t'. it = Fetched row # rest \<and> load row t = (Some e, t') \<longrightarrow>
            (\<exists>evs. QueryAndParse load dsExt q (Dyn (GoPtr (Some (GoStruct t)))) =
               Return (Some e, Dyn (GoPtr (Some (GoStruct t'))), evs)))"
proof (intro conjI allI impI)
  assume "it = []"
  then show "\<exists>evs. QueryAndParse load dsExt q (Dyn (GoPtr (Some (GoStruct t)))) =
               Return (Some IteratorDone, Dyn (GoPtr (Some (GoStruct t))), evs)"
    using assms by (simp add: QueryAndParse_struct)
next
  fix row t'
  assume "it = [Fetched row] \<and> load row t = (None, t')"
  then show "\<exists>evs. QueryAndParse load dsExt q (Dyn (GoPtr (Some (GoStruct t)))) =
               Return (None, Dyn (GoPtr (Some (GoStruct t'))), evs)"
    using assms by (simp add: QueryAndParse_struct)
next
  fix row row2 rest t'
  assume "it = Fetched row # Fetched row2 # rest \<and> load row t = (None, t')"
  then show "\<exists>ptr evs. QueryAndParse load dsExt q (Dyn (GoPtr (Some (GoStruct t)))) =
               Return (Some (ErrorString ''multiple row data''), ptr, evs)"
    using assms by (simp add: QueryAndParse_struct)
next
  fix rows
  assume rows: "it = map Fetched rows \<and> length rows \<noteq> 1"
  show "\<exists>e ptr evs. QueryAndParse load dsExt q (Dyn (GoPtr (Some (GoStruct t)))) =
               Return (Some e, ptr, evs)"
  proof (cases rows)
    case Nil
    then show ?thesis using assms rows by (simp add: QueryAndParse_struct)
  next
    case (Cons row rest)
    then obtain row2 rest2 where "rest = row2 # rest2"
      using rows by (cases rest) auto
    then show ?thesis
      using assms rows Cons
      by (cases "load row t") (auto simp: QueryAndParse_struct split: option.splits)
  qed
next
  fix row rest e t'
  assume "it = Fetched row # rest \<and> load row t = (Some e, t')"
  then show "\<exists>evs. QueryAndParse load dsExt q (Dyn (GoPtr (Some (GoStruct t)))) =
               Return (Some e, Dyn (GoPtr (Some (GoStruct t'))), evs)"
    using assms by (simp add: QueryAndParse_struct)
qed

lemma field_by_name_columns:
  "field_by_name ''PartitionID'' = Some PartitionID_field"
  "field_by_name ''CreationTime'' = Some CreationTime_field"
  "field_by_name ''LastModified'' = Some LastModified_field"
  by (simp_all add: field_by_name_def EqualFold_def to_lower_def)

text \<open>A column is bound whatever the case of its name, and with a long s for an s.\<close>

lemma field_by_name_folded:
  "field_by_name (''La'' @ [CHR 0xC5, CHR 0xBF] @ ''tModified'') = Some LastModified_field"
  by (simp add: field_by_name_def EqualFold_def to_lower_def)

lemma field_by_name_lower:
  "field_by_name ''partitionid'' = Some PartitionID_field"
  "field_by_name ''extra'' = None"
  by (simp_all add: field_by_name_def EqualFold_def to_lower_def)

lemma load_one_row:
  "load_PartitionInfo [(''partitionid'', StringValue ''20230101''),
                       (''CreationTime'', TimestampValue 1500), (''extra'', IntValue 7)]
     PartitionInfo_zero =
     (None, \<lparr>PartitionID = ''20230101'', CreationTime = 1500, LastModified = 0\<rparr>)"
  by (simp add: load_PartitionInfo_def field_by_name_columns field_by_name_lower PartitionInfo_zero_def)

lemma load_null_row:
  "load_PartitionInfo [(''PartitionID'', Null)] PartitionInfo_zero =
     (Some (ErrorString ''bigquery: NULL cannot be assigned to field `PartitionID` of type string''),
      PartitionInfo_zero)"
  by (simp add: load_PartitionInfo_def field_by_name_columns)

theorem QueryAndParse_row_count_witness:
  "(\<exists>evs. QueryAndParse load_PartitionInfo
            (fake_Dataset (fake_Client (Inr []) (Inr (Job ''job_1'')) \<lparr>replies = [], job_error = None\<rparr>))
            ''SELECT 1'' (Dyn (GoPtr (Some (GoStruct PartitionInfo_zero)))) =
          Return (Some IteratorDone, Dyn (GoPtr (Some (GoStruct PartitionInfo_zero))), evs))
   \<and> (\<exists>evs. QueryAndParse load_PartitionInfo
            (fake_Dataset (fake_Client
               (Inr [Fetched [(''partitionid'', StringValue ''20230101''),
                              (''CreationTime'', TimestampValue 1500), (''extra'', IntValue 7)]])
               (Inr (Job ''job_1'')) \<lparr>replies = [], job_error = None\<rparr>))
            ''SELECT 1'' (Dyn (GoPtr (Some (GoStruct PartitionInfo_zero)))) =
          Return (None, Dyn (GoPtr (Some (GoStruct
                    \<lparr>PartitionID = ''20230101'', CreationTime = 1500, LastModified = 0\<rparr>))), evs))
   \<and> (\<exists>ptr evs. QueryAndParse load_PartitionInfo
            (fake_Dataset (fake_Client
               (Inr [Fetched [(''partitionid'', StringValue ''20230101''),
                              (''CreationTime'', TimestampValue 1500), (''extra'', IntValue 7)],
                     Fetched [(''PartitionID'', StringValue ''20230102'')]])
               (Inr (Job ''job_1'')) \<lparr>replies = [], job_error = None\<rparr>))
            ''SELECT 1'' (Dyn (GoPtr (Some (GoStruct PartitionInfo_zero)))) =
          Return (Some (ErrorString ''multiple row data''), ptr, evs))
   \<and> (\<exists>e ptr evs. QueryAndParse load_PartitionInfo
            (fake_Dataset (fake_Client
               (Inr [Fetched [(''PartitionID'', IntValue 20230101)],
                     Fetched [(''PartitionID'', StringValue ''20230102'')]])
               (Inr (Job ''job_1'')) \<lparr>replies = [], job_error = None\<rparr>))
            ''SELECT 1'' (Dyn (GoPtr (Some (GoStruct PartitionInfo_zero)))) =
          Return (Some e, ptr, evs))
   \<and> (\<exists>evs. QueryAndParse load_PartitionInfo
            (fake_Dataset (fake_Client
               (Inr [Fetched [(''PartitionID'', Null)],
                     Fetched [(''PartitionID'', StringValue ''20230102'')]])
               (Inr (Job ''job_1'')) \<lparr>replies = [], job_error = None\<rparr>))
            ''SELECT 1'' (Dyn (GoPtr (Some (GoStruct PartitionInfo_zero)))) =
          Return (Some (ErrorString ''bigquery: NULL cannot be assigned to field `PartitionID` of type string''),
                  Dyn (GoPtr (Some (GoStruct PartitionInfo_zero))), evs))"
proof (intro conjI)
  show "\<exists>evs. QueryAndParse load_PartitionInfo
            (fake_Dataset (fake_Client (Inr []) (Inr (Job ''job_1'')) \<lparr>replies = [], job_error = None\<rparr>))
            ''SELECT 1'' (Dyn (GoPtr (Some (GoStruct PartitionInfo_zero)))) =
          Return (Some IteratorDone, Dyn (GoPtr (Some (GoStruct PartitionInfo_zero))), evs)"
    by (rule QueryAndParse_row_count [where load = load_PartitionInfo and t = PartitionInfo_zero, OF fake_read, THEN conjunct1, THEN mp, OF refl])
  show "\<exists>evs. QueryAndParse load_PartitionInfo
            (fake_Dataset (fake_Client
               (Inr [Fetched [(''partitionid'', StringValue ''20230101''),
                              (''CreationTime'', TimestampValue 1500), (''extra'', IntValue 7)]])
               (Inr (Job ''job_1'')) \<lparr>replies = [], job_error = None\<rparr>))
            ''SELECT 1'' (Dyn (GoPtr (Some (GoStruct PartitionInfo_zero)))) =
          Return (None, Dyn (GoPtr (Some (GoStruct
                    \<lparr>PartitionID = ''20230101'', CreationTime = 1500, LastModified = 0\<rparr>))), evs)"
    by (rule QueryAndParse_row_count [where load = load_PartitionInfo and t = PartitionInfo_zero, OF fake_read, THEN conjunct2, THEN conjunct1,
              THEN spec, THEN spec, THEN mp, OF conjI [OF refl load_one_row]])
  show "\<exists>ptr evs. QueryAndParse load_PartitionInfo
            (fake_Dataset (fake_Client
               (Inr [Fetched [(''partitionid'', StringValue ''20230101''),
                              (''CreationTime'', TimestampValue 1500), (''extra'', IntValue 7)],
                     Fetched [(''PartitionID'', StringValue ''20230102'')]])
               (Inr (Job ''job_1'')) \<lparr>replies = [], job_error = None\<rparr>))
            ''SELECT 1'' (Dyn (GoPtr (Some (GoStruct PartitionInfo_zero)))) =
          Return (Some (ErrorString ''multiple row data''), ptr, evs)"
    by (rule QueryAndParse_row_count [where load = load_PartitionInfo and t = PartitionInfo_zero, OF fake_read, THEN conjunct2, THEN conjunct2, THEN conjunct1,
              THEN spec, THEN spec, THEN spec, THEN spec, THEN mp, OF conjI [OF refl load_one_row]])
  have two: "[Fetched [(''PartitionID'', IntValue 20230101)],
              Fetched [(''PartitionID'', StringValue ''20230102'')]] =
             map Fetched [[(''PartitionID'', IntValue 20230101)],
                          [(''PartitionID'', StringValue ''20230102'')]]
             \<and> length [[(''PartitionID'', IntValue 20230101)],
                         [(''PartitionID'', StringValue ''20230102'')]] \<noteq> 1"
    by simp
  show "\<exists>e ptr evs. QueryAndParse load_PartitionInfo
            (fake_Dataset (fake_Client
               (Inr [Fetched [(''PartitionID'', IntValue 20230101)],
                     Fetched [(''PartitionID'', StringValue ''20230102'')]])
               (Inr (Job ''job_1'')) \<lparr>replies = [], job_error = None\<rparr>))
            ''SELECT 1'' (Dyn (GoPtr (Some (GoStruct PartitionInfo_zero)))) =
          Return (Some e, ptr, evs)"
    by (rule QueryAndParse_row_count [where load = load_PartitionInfo and t = PartitionInfo_zero, OF fake_read,
              THEN conjunct2, THEN conjunct2, THEN conjunct2, THEN conjunct1, THEN spec, THEN mp, OF two])
  show "\<exists>evs. QueryAndParse load_PartitionInfo
            (fake_Dataset (fake_Client
               (Inr [Fetched [(''PartitionID'', Null)],
                     Fetched [(''PartitionID'', StringValue ''20230102'')]])
               (Inr (Job ''job_1'')) \<lparr>replies = [], job_error = None\<rparr>))
            ''SELECT 1'' (Dyn (GoPtr (Some (GoStruct PartitionInfo_zero)))) =
          Return (Some (ErrorString ''bigquery: NULL cannot be assigned to field `PartitionID` of type string''),
                  Dyn (GoPtr (Some (GoStruct PartitionInfo_zero))), evs)"
    by (rule QueryAndParse_row_count [where load = load_PartitionInfo and t = PartitionInfo_zero, OF fake_read,
              THEN conjunct2, THEN conjunct2, THEN conjunct2, THEN conjunct2,
              THEN spec, THEN spec, THEN spec, THEN spec, THEN mp, OF conjI [OF refl load_null_row]])
qed

text \<open>
  Against C1 as it was stated, for every cursor of one row and of two rows: a
  cursor of exactly one row, with a NULL that the loader refuses, ends with the
  error of the loader and the struct not filled; a cursor of two rows whose first
  is refused ends with that same error, not with "multiple row data".
\<close>

theorem QueryAndParse_row_refused:
  "QueryAndParse load_PartitionInfo
      (fake_Dataset (fake_Client (Inr [Fetched [(''PartitionID'', Null)]])
         (Inr (Job ''job_1'')) \<lparr>replies = [], job_error = None\<rparr>))
      ''SELECT 1'' (Dyn (GoPtr (Some (GoStruct PartitionInfo_zero)))) =
     Return (Some (ErrorString ''bigquery: NULL cannot be assigned to field `PartitionID` of type string''),
             Dyn (GoPtr (Some (GoStruct PartitionInfo_zero))),
             [ReadEv (ResultQuery
                (fake_Dataset (fake_Client (Inr [Fetched [(''PartitionID'', Null)]])
                   (Inr (Job ''job_1'')) \<lparr>replies = [], job_error = None\<rparr>))
                ''SELECT 1'' False),
              NextEv Struct])
   \<and> QueryAndParse load_PartitionInfo
      (fake_Dataset (fake_Client
         (Inr [Fetched [(''PartitionID'', Null)],
               Fetched [(''PartitionID'', StringValue ''20230102'')]])
         (Inr (Job ''job_1'')) \<lparr>replies = [], job_error = None\<rparr>))
      ''SELECT 1'' (Dyn (GoPtr (Some (GoStruct PartitionInfo_zero)))) =
     Return (Some (ErrorString ''bigquery: NULL cannot be assigned to field `PartitionID` of type string''),
             Dyn (GoPtr (Some (GoStruct PartitionInfo_zero))),
             [ReadEv (ResultQuery
                (fake_Dataset (fake_Client
                   (Inr [Fetched [(''PartitionID'', Null)],
                         Fetched [(''PartitionID'', StringValue ''20230102'')]])
                   (Inr (Job ''job_1'')) \<lparr>replies = [], job_error = None\<rparr>))
                ''SELECT 1'' False),
              NextEv Struct])"
  by (simp add: QueryAndParse_struct fake_read load_null_row)

text \<open>
  C4. For every call of \<^verbatim>\<open>QueryAndParse\<close> whose first read has loaded a row into
  the struct: the call reads the cursor once more, into a map of its own that it
  drops, and makes no other request; the error is "multiple row data" exactly
  when that second read does not report \<^verbatim>\<open>iterator.Done\<close>, and \<^verbatim>\<open>nil\<close> exactly
  when it does. The struct is left as the first read has filled it.
\<close>

theorem QueryAndParse_extra_read:
  assumes "read_rows (BqClient dsExt) (ResultQuery dsExt q False) = Inr it"
      and "Next load it (Dyn (GoPtr (Some (GoStruct t)))) = (None, ptr, it')"
  shows "\<exists>err. QueryAndParse load dsExt q (Dyn (GoPtr (Some (GoStruct t)))) =
             Return (err, ptr, [ReadEv (ResultQuery dsExt q False), NextEv Struct, NextEv Map])
          \<and> (err = Some (ErrorString ''multiple row data'')) =
              (fst (Next load it' (Dyn (GoPtr (Some (GoMap []))))) \<noteq> Some IteratorDone)
          \<and> (err = None) =
              (fst (Next load it' (Dyn (GoPtr (Some (GoMap []))))) = Some IteratorDone)"
  using assms
  unfolding QueryAndParse_def Let_def
  by (auto split: prod.splits)

theorem QueryAndParse_extra_read_witness:
  "\<exists>err. QueryAndParse load_PartitionInfo
            (fake_Dataset (fake_Client
               (Inr [Fetched [(''partitionid'', StringValue ''20230101''),
                              (''CreationTime'', TimestampValue 1500), (''extra'', IntValue 7)],
                     Failed (ServiceError ''backend error'')])
               (Inr (Job ''job_1'')) \<lparr>replies = [], job_error = None\<rparr>))
            ''SELECT 1'' (Dyn (GoPtr (Some (GoStruct PartitionInfo_zero)))) =
          Return (err, Dyn (GoPtr (Some (GoStruct
                    \<lparr>PartitionID = ''20230101'', CreationTime = 1500, LastModified = 0\<rparr>))),
                  [ReadEv (ResultQuery (fake_Dataset (fake_Client
               (Inr [Fetched [(''partitionid'', StringValue ''20230101''),
                              (''CreationTime'', TimestampValue 1500), (''extra'', IntValue 7)],
                     Failed (ServiceError ''backend error'')])
               (Inr (Job ''job_1'')) \<lparr>replies = [], job_error = None\<rparr>)) ''SELECT 1'' False), NextEv Struct, NextEv Map])
        \<and> err = Some (ErrorString ''multiple row data'')"
proof -
  let ?row = "[(''partitionid'', StringValue ''20230101''),
               (''CreationTime'', TimestampValue 1500), (''extra'', IntValue 7)]"
  let ?it = "[Fetched ?row, Failed (ServiceError ''backend error'')]"
  let ?ds = "fake_Dataset (fake_Client (Inr ?it) (Inr (Job ''job_1'')) \<lparr>replies = [], job_error = None\<rparr>)"
  let ?ptr = "Dyn (GoPtr (Some (GoStruct
                    \<lparr>PartitionID = ''20230101'', CreationTime = 1500, LastModified = 0\<rparr>)))"
  have n: "Next load_PartitionInfo ?it (Dyn (GoPtr (Some (GoStruct PartitionInfo_zero)))) =
             (None, ?ptr, [Failed (ServiceError ''backend error'')])"
    by (simp add: Next_struct load_one_row)
  have m: "fst (Next load_PartitionInfo [Failed (ServiceError ''backend error'')]
                  (Dyn (GoPtr (Some (GoMap []))))) \<noteq> Some IteratorDone"
    by (simp add: Next_map)
  from QueryAndParse_extra_read [where load = load_PartitionInfo, OF fake_read n]
  obtain err where
    e: "QueryAndParse load_PartitionInfo ?ds ''SELECT 1'' (Dyn (GoPtr (Some (GoStruct PartitionInfo_zero)))) =
          Return (err, ?ptr, [ReadEv (ResultQuery ?ds ''SELECT 1'' False), NextEv Struct, NextEv Map])"
    and "(err = Some (ErrorString ''multiple row data'')) =
           (fst (Next load_PartitionInfo [Failed (ServiceError ''backend error'')]
                  (Dyn (GoPtr (Some (GoMap []))))) \<noteq> Some IteratorDone)"
    by blast
  then have "err = Some (ErrorString ''multiple row data'')"
    using m by simp
  with e show ?thesis by (intro exI conjI)
qed

text \<open>
  An argument that is not the \<^verbatim>\<open>nil\<close> interface and not a pointer to a struct is
  refused with an error before anything is asked of the service.
\<close>

lemma QueryAndParse_ill_typed:
  "pointee (Dyn v) = None \<Longrightarrow>
   QueryAndParse load dsExt q (Dyn v) =
     Return (Some (ErrorString ''Argument should be ptr to struct''), Dyn v, [])"
  unfolding QueryAndParse_def Let_def
  apply (cases v)
  apply simp_all
  subgoal for p
    apply (cases p)
     apply simp
    subgoal for w by (cases w) simp_all
    done
  done

text \<open>
  C9. An argument that is not a pointer should be refused with the error
  "Argument should be ptr to struct". The \<^verbatim>\<open>nil\<close> interface is such an argument,
  and for it \<^verbatim>\<open>QueryAndParse\<close> returns no error: \<^verbatim>\<open>reflect.ValueOf(nil)\<close> is the
  zero \<^verbatim>\<open>Value\<close>, and the call of \<^verbatim>\<open>Type\<close> on it panics.
\<close>

theorem QueryAndParse_nil_interface_panics:
  "QueryAndParse load dsExt q NilInterface =
     Panic ''reflect: call of reflect.Value.Type on zero Value''"
  by (simp add: QueryAndParse_def)

section \<open>Partition metadata\<close>

lemma GetPartitionInfo_unfold:
  "GetPartitionInfo dsExt table partition' =
     (case QueryAndParse load_PartitionInfo dsExt (Sprintf partitionTemplate [table, partition'])
             (Dyn (GoPtr (Some (GoStruct PartitionInfo_zero)))) of
        Panic msg \<Rightarrow> Panic msg
      | Return (err, ptr, evs) \<Rightarrow>
          (case err of
             Some e \<Rightarrow> Return (PartitionInfo_zero, Some e, evs)
           | None \<Rightarrow>
               (case pointee ptr of
                  Some pinfo' \<Rightarrow> Return (pinfo', None, evs)
                | None \<Rightarrow> Panic ''invalid memory address or nil pointer dereference'')))"
  by (simp add: GetPartitionInfo_def Let_def)

text \<open>
  The query of \<^verbatim>\<open>GetPartitionInfo\<close> is in the legacy dialect, and its text ends
  with the comparison of \<^verbatim>\<open>partition_id\<close> to the ID asked for.
\<close>

lemma GetPartitionInfo_query:
  "UseLegacySQL (ResultQuery dsExt (Sprintf partitionTemplate [table, partition']) False)
   \<and> suffix (''where partition_id = '' @ [CHR 0x22] @ partition' @ [CHR 0x22] @ '' '')
        (Q (ResultQuery dsExt (Sprintf partitionTemplate [table, partition']) False))"
proof
  show "UseLegacySQL (ResultQuery dsExt (Sprintf partitionTemplate [table, partition']) False)"
    by (simp add: Sprintf_partitionTemplate ResultQuery_def Client_Query_def HasPrefix_def Let_def)
  have "Q (ResultQuery dsExt (Sprintf partitionTemplate [table, partition']) False) =
          Sprintf partitionTemplate [table, partition']"
    by (simp add: ResultQuery_def Client_Query_def Let_def)
  then show "suffix (''where partition_id = '' @ [CHR 0x22] @ partition' @ [CHR 0x22] @ '' '')
        (Q (ResultQuery dsExt (Sprintf partitionTemplate [table, partition']) False))"
    unfolding Sprintf_partitionTemplate suffix_def by simp
qed

text \<open>The loader takes a row of the summary whole.\<close>

lemma load_summary_row:
  "load_PartitionInfo
     [(''PartitionID'', StringValue pid), (''CreationTime'', TimestampValue created),
      (''LastModified'', TimestampValue modified)] PartitionInfo_zero =
     (None, \<lparr>PartitionID = pid, CreationTime = created, LastModified = modified\<rparr>)"
  by (simp add: load_PartitionInfo_def field_by_name_columns PartitionInfo_zero_def)

text \<open>How the service reads the text that \<^verbatim>\<open>GetPartitionInfo\<close> sends.\<close>

lemma strip_prefix_append: "strip_prefix p (p @ s) = Some s"
  by (induction p) simp_all

lemma strip_suffix_append: "strip_suffix suf (a @ suf) = Some a"
  by (simp add: strip_suffix_def strip_prefix_append)

lemma split_on_first: "d \<notin> set a \<Longrightarrow> split_on d (a @ d # s) = Some (a, s)"
  by (induction a) auto

lemma Sprintf_partitionTemplate_parts:
  "Sprintf partitionTemplate [table, pid] =
     summary_select @ ((table @ ''$__PARTITIONS_SUMMARY__'') @ CHR '']'' #
       (summary_where @ (pid @ CHR 0x22 # '' '')))"
  by (simp add: partitionTemplate_def summary_select_def summary_where_def)

lemma parse_partition_query:
  assumes "CHR '']'' \<notin> set table"
  shows "parse_summary_query (Sprintf partitionTemplate [table, pid]) =
           (case split_on (CHR 0x22) (pid @ CHR 0x22 # '' '') of
              None \<Rightarrow> None
            | Some (literal, r4) \<Rightarrow>
                (if r4 = '' '' \<and> \<not> (CHR 0x5C \<in> set literal)
                 then Some (table, literal) else None))"
proof -
  have "CHR '']'' \<notin> set (table @ ''$__PARTITIONS_SUMMARY__'')"
    using assms by simp
  then have cut: "split_on (CHR '']'')
               ((table @ ''$__PARTITIONS_SUMMARY__'') @ CHR '']'' #
                  (summary_where @ (pid @ CHR 0x22 # '' ''))) =
             Some (table @ ''$__PARTITIONS_SUMMARY__'', summary_where @ (pid @ CHR 0x22 # '' ''))"
    by (rule split_on_first)
  show ?thesis
    unfolding parse_summary_query_def Sprintf_partitionTemplate_parts
    by (simp only: strip_prefix_append cut strip_suffix_append option.case prod.case)
qed

lemma parse_partition_query_plain:
  assumes "CHR '']'' \<notin> set table" and "CHR 0x22 \<notin> set pid" and "CHR 0x5C \<notin> set pid"
  shows "parse_summary_query (Sprintf partitionTemplate [table, pid]) = Some (table, pid)"
  using assms(3)
  by (simp add: parse_partition_query [OF assms(1)] split_on_first [OF assms(2)])

lemma summary_service_partition_query:
  assumes "CHR '']'' \<notin> set table" and "CHR 0x22 \<notin> set pid" and "CHR 0x5C \<notin> set pid"
  shows "summary_service tables (ResultQuery dsExt (Sprintf partitionTemplate [table, pid]) False) =
           Inr (summary_rows (tables table) pid)"
proof -
  have "Q (ResultQuery dsExt (Sprintf partitionTemplate [table, pid]) False) =
          Sprintf partitionTemplate [table, pid]"
    by (simp add: ResultQuery_def Client_Query_def Let_def)
  moreover have "UseLegacySQL (ResultQuery dsExt (Sprintf partitionTemplate [table, pid]) False)"
    by (rule GetPartitionInfo_query [THEN conjunct1])
  ultimately show ?thesis
    by (simp add: summary_service_def parse_partition_query_plain [OF assms])
qed

text \<open>
  C8, as the code has it. For every call of \<^verbatim>\<open>GetPartitionInfo\<close> to the summary
  service, with a table name that has no \<^verbatim>\<open>]\<close> and a partition ID that has no
  \<^verbatim>\<open>"\<close> and no backslash: the query that the call sends is read by the service as
  the comparison of \<^verbatim>\<open>partition_id\<close> with the ID asked for, in the summary of the
  table asked for; when the table has no partition of that ID, the call returns
  the error \<^verbatim>\<open>iterator.Done\<close>; when it has one, the call returns no error and a
  \<^verbatim>\<open>PartitionInfo\<close> whose \<open>PartitionID\<close> is the ID asked for, with the two times
  of that partition.
\<close>

theorem GetPartitionInfo_by_id:
  assumes "read_rows (BqClient dsExt) = summary_service tables"
      and "CHR '']'' \<notin> set table"
      and "CHR 0x22 \<notin> set partition'"
      and "CHR 0x5C \<notin> set partition'"
  shows "(tables table partition' = None \<longrightarrow>
           (\<exists>evs. GetPartitionInfo dsExt table partition' =
                    Return (PartitionInfo_zero, Some IteratorDone, evs)))
       \<and> (\<forall>created modified. tables table partition' = Some (created, modified) \<longrightarrow>
           (\<exists>evs. GetPartitionInfo dsExt table partition' =
                    Return (\<lparr>PartitionID = partition', CreationTime = created,
                             LastModified = modified\<rparr>, None, evs)))"
proof -
  have r: "read_rows (BqClient dsExt)
             (ResultQuery dsExt (Sprintf partitionTemplate [table, partition']) False) =
           Inr (summary_rows (tables table) partition')"
    using assms(1) summary_service_partition_query [OF assms(2-4)] by simp
  show ?thesis
  proof (intro conjI allI impI)
    assume "tables table partition' = None"
    then show "\<exists>evs. GetPartitionInfo dsExt table partition' =
                    Return (PartitionInfo_zero, Some IteratorDone, evs)"
      using r by (simp add: GetPartitionInfo_unfold QueryAndParse_struct summary_rows_def)
  next
    fix created modified
    assume "tables table partition' = Some (created, modified)"
    then show "\<exists>evs. GetPartitionInfo dsExt table partition' =
                    Return (\<lparr>PartitionID = partition', CreationTime = created,
                             LastModified = modified\<rparr>, None, evs)"
      using r
      by (simp add: GetPartitionInfo_unfold QueryAndParse_struct summary_rows_def load_summary_row)
  qed
qed

lemma fake_tables_lookup:
  "fake_tables ''mytable'' ''19990101'' = None"
  "fake_tables ''mytable'' ''20230102'' = Some (1700, 1800)"
  "fake_tables ''mytable'' [CHR 0x22] = None"
  by (simp_all add: fake_tables_def)

theorem GetPartitionInfo_by_id_witness:
  "(\<exists>evs. GetPartitionInfo (fake_Dataset (summary_Client fake_tables)) ''mytable'' ''19990101'' =
          Return (PartitionInfo_zero, Some IteratorDone, evs))
   \<and> (\<exists>evs. GetPartitionInfo (fake_Dataset (summary_Client fake_tables)) ''mytable'' ''20230102'' =
          Return (\<lparr>PartitionID = ''20230102'', CreationTime = 1700, LastModified = 1800\<rparr>,
                  None, evs))"
proof (intro conjI)
  have t: "CHR '']'' \<notin> set ''mytable''" by simp
  have a: "CHR 0x22 \<notin> set ''19990101''" "CHR 0x5C \<notin> set ''19990101''" by simp_all
  have b: "CHR 0x22 \<notin> set ''20230102''" "CHR 0x5C \<notin> set ''20230102''" by simp_all
  show "\<exists>evs. GetPartitionInfo (fake_Dataset (summary_Client fake_tables)) ''mytable'' ''19990101'' =
          Return (PartitionInfo_zero, Some IteratorDone, evs)"
    by (rule GetPartitionInfo_by_id [where tables = fake_tables, OF summary_read t a, THEN conjunct1, THEN mp,
              OF fake_tables_lookup(1)])
  show "\<exists>evs. GetPartitionInfo (fake_Dataset (summary_Client fake_tables)) ''mytable'' ''20230102'' =
          Return (\<lparr>PartitionID = ''20230102'', CreationTime = 1700, LastModified = 1800\<rparr>,
                  None, evs)"
    by (rule GetPartitionInfo_by_id [where tables = fake_tables, OF summary_read t b, THEN conjunct2, THEN spec, THEN spec,
              THEN mp, OF fake_tables_lookup(2)])
qed

text \<open>
  Against C8 as it was stated, for every partition ID: the table has no partition
  whose ID is one double quote, and the call for that ID does not return
  \<^verbatim>\<open>iterator.Done\<close>. The ID is put into the query text as it is, the text is no
  longer a comparison with one string literal, and the call returns the error of
  the service.
\<close>

theorem GetPartitionInfo_quote_in_id:
  "fake_tables ''mytable'' [CHR 0x22] = None
   \<and> GetPartitionInfo (fake_Dataset (summary_Client fake_tables)) ''mytable'' [CHR 0x22] =
       Return (PartitionInfo_zero, Some (ServiceError ''invalidQuery: syntax error''),
               [ReadEv (ResultQuery (fake_Dataset (summary_Client fake_tables))
                          (Sprintf partitionTemplate [''mytable'', [CHR 0x22]]) False)])"
proof
  show "fake_tables ''mytable'' [CHR 0x22] = None"
    by (rule fake_tables_lookup(3))
  have t: "CHR '']'' \<notin> set ''mytable''" by simp
  have "parse_summary_query (Sprintf partitionTemplate [''mytable'', [CHR 0x22]]) = None"
    by (simp add: parse_partition_query [OF t])
  moreover have "Q (ResultQuery (fake_Dataset (summary_Client fake_tables))
                      (Sprintf partitionTemplate [''mytable'', [CHR 0x22]]) False) =
                 Sprintf partitionTemplate [''mytable'', [CHR 0x22]]"
    by (simp add: ResultQuery_def Client_Query_def Let_def)
  moreover have "UseLegacySQL (ResultQuery (fake_Dataset (summary_Client fake_tables))
                      (Sprintf partitionTemplate [''mytable'', [CHR 0x22]]) False)"
    by (rule GetPartitionInfo_query [THEN conjunct1])
  ultimately have "read_rows (BqClient (fake_Dataset (summary_Client fake_tables)))
          (ResultQuery (fake_Dataset (summary_Client fake_tables))
             (Sprintf partitionTemplate [''mytable'', [CHR 0x22]]) False) =
        Inl (ServiceError ''invalidQuery: syntax error'')"
    by (simp add: summary_read summary_service_def)
  then show "GetPartitionInfo (fake_Dataset (summary_Client fake_tables)) ''mytable'' [CHR 0x22] =
       Return (PartitionInfo_zero, Some (ServiceError ''invalidQuery: syntax error''),
               [ReadEv (ResultQuery (fake_Dataset (summary_Client fake_tables))
                          (Sprintf partitionTemplate [''mytable'', [CHR 0x22]]) False)])"
    by (simp add: GetPartitionInfo_unfold QueryAndParse_struct)
qed

text \<open>
  C10. Every call of \<^verbatim>\<open>GetPartitionInfo\<close> returns, and when it returns an error
  the \<^verbatim>\<open>PartitionInfo\<close> beside it is the zero value, also when the struct had been
  filled from a first row before the error arose.
\<close>

theorem GetPartitionInfo_error_zero:
  "\<exists>pinfo err evs. GetPartitionInfo dsExt table partition' = Return (pinfo, err, evs)
      \<and> (err \<noteq> None \<longrightarrow> pinfo = PartitionInfo_zero)"
  unfolding GetPartitionInfo_unfold QueryAndParse_struct
  by (auto split: sum.splits prod.splits option.splits)

theorem GetPartitionInfo_error_zero_witness:
  "\<exists>pinfo err evs. GetPartitionInfo
        (fake_Dataset (fake_Client
           (Inr [Fetched [(''partitionid'', StringValue ''20230101''),
                          (''CreationTime'', TimestampValue 1500), (''extra'', IntValue 7)],
                 Fetched [(''PartitionID'', StringValue ''20230102'')]])
           (Inr (Job ''job_1'')) \<lparr>replies = [], job_error = None\<rparr>))
        ''mytable'' ''20230101'' = Return (pinfo, err, evs)
      \<and> err = Some (ErrorString ''multiple row data'')
      \<and> pinfo = PartitionInfo_zero"
proof -
  let ?ds = "fake_Dataset (fake_Client
           (Inr [Fetched [(''partitionid'', StringValue ''20230101''),
                          (''CreationTime'', TimestampValue 1500), (''extra'', IntValue 7)],
                 Fetched [(''PartitionID'', StringValue ''20230102'')]])
           (Inr (Job ''job_1'')) \<lparr>replies = [], job_error = None\<rparr>)"
  have e: "\<exists>evs. GetPartitionInfo ?ds ''mytable'' ''20230101'' =
             Return (PartitionInfo_zero, Some (ErrorString ''multiple row data''), evs)"
    by (simp add: GetPartitionInfo_unfold QueryAndParse_struct fake_read load_one_row)
  from GetPartitionInfo_error_zero [of ?ds "''mytable''" "''20230101''"]
  obtain pinfo err evs where
    r: "GetPartitionInfo ?ds ''mytable'' ''20230101'' = Return (pinfo, err, evs)"
    and z: "err \<noteq> None \<longrightarrow> pinfo = PartitionInfo_zero"
    by blast
  from e r have "err = Some (ErrorString ''multiple row data'')" by auto
  with z have "pinfo = PartitionInfo_zero" by simp
  with r \<open>err = Some (ErrorString ''multiple row data'')\<close> show ?thesis by blast
qed

end
